theory Spec2Isabelle
  imports Main "HOL-Library.Word"
begin

section \<open>The Synth driver core (synth.h, synth.c)\<close>

text \<open>
  The driver keeps two file-local statics, \<^verbatim>\<open>SynthIO\<close> (the registered table of
  low-level callbacks) and \<^verbatim>\<open>SynthCtx\<close> (the runtime configuration), and ten public
  functions that read and write them and call through the table.

  Everything the driver can touch is one record: the two statics and \<open>hw\<close>, the
  state of whatever lies behind the callbacks (the audio peripheral, the board
  support code). A callback is stored in the table as a function on \<open>hw\<close> that
  returns its \<^verbatim>\<open>int32_t\<close> result and the new \<open>hw\<close>: its own action on the backend. A
  null function pointer is \<open>None\<close>.

  The statics are \<^verbatim>\<open>static\<close> in synth.c, so a callback cannot write them directly, but
  it is C code and may call the public functions of the driver, which are exported.
  What an indirect call does to the whole state is therefore an argument of
  \<open>SYNTH_Init_with\<close>, the embedding of \<^verbatim>\<open>SYNTH_Init\<close>. \<open>plain_call\<close> is the indirect call
  of a callback that acts on the backend only, and the ten functions \<open>SYNTH_*\<close> are
  the driver run with such callbacks.
\<close>

subsection \<open>Types and constants of synth.h\<close>

type_synonym uint8_t = "8 word"
type_synonym uint32_t = "32 word"
type_synonym int32_t = "32 word"

text \<open>
  A data pointer that the driver only compares or passes on (\<^verbatim>\<open>pObj\<close>, the sample
  buffer). A pointer that the driver reads or writes through is an \<open>option\<close>:
  \<open>None\<close> is the null pointer, \<open>Some x\<close> points at a cell that holds \<open>x\<close>.
\<close>

datatype ptr = NULL | Addr nat

definition SYNTH_STATUS_OK :: int32_t where
  "SYNTH_STATUS_OK = 0x00"

definition SYNTH_STATUS_ERROR :: int32_t where
  "SYNTH_STATUS_ERROR = 0x01"

definition SYNTH_STATUS_BUSY :: int32_t where
  "SYNTH_STATUS_BUSY = 0x02"

definition SYNTH_STATUS_TIMEOUT :: int32_t where
  "SYNTH_STATUS_TIMEOUT = 0x03"

definition SYNTH_DEFAULT_SAMPLE_RATE :: uint32_t where
  "SYNTH_DEFAULT_SAMPLE_RATE = 44100"

definition SYNTH_DEFAULT_CHANNELS :: uint8_t where
  "SYNTH_DEFAULT_CHANNELS = 2"

definition SYNTH_DEFAULT_VOLUME :: uint8_t where
  "SYNTH_DEFAULT_VOLUME = 75"

text \<open>\<^verbatim>\<open>SYNTH_IO_t\<close>: six optional callbacks, in the order of the header.\<close>

record 'hw SYNTH_IO_t =
  Init :: "('hw \<Rightarrow> int32_t \<times> 'hw) option"
  DeInit :: "('hw \<Rightarrow> int32_t \<times> 'hw) option"
  Transmit :: "(ptr \<Rightarrow> uint32_t \<Rightarrow> 'hw \<Rightarrow> int32_t \<times> 'hw) option"
  SetSampleRate :: "(uint32_t \<Rightarrow> 'hw \<Rightarrow> int32_t \<times> 'hw) option"
  GetSampleRate :: "(ptr \<Rightarrow> 'hw \<Rightarrow> int32_t \<times> 'hw) option"
  Mute :: "(uint8_t \<Rightarrow> 'hw \<Rightarrow> int32_t \<times> 'hw) option"

text \<open>\<^verbatim>\<open>SYNTH_Ctx_t\<close>: the runtime configuration.\<close>

record SYNTH_Ctx_t =
  SampleRate :: uint32_t
  Channels :: uint8_t
  Volume :: uint8_t
  Mute :: uint8_t
  Initialized :: uint8_t

record 'hw synth =
  SynthIO :: "'hw SYNTH_IO_t"
  SynthCtx :: SYNTH_Ctx_t
  hw :: 'hw

text \<open>A static without initialiser starts as all-zero bytes: null pointers, zero fields.\<close>

definition SynthIO_zero :: "'hw SYNTH_IO_t" where
  "SynthIO_zero =
     \<lparr>Init = None, DeInit = None, Transmit = None, SetSampleRate = None,
      GetSampleRate = None, SYNTH_IO_t.Mute = None\<rparr>"

definition SynthCtx_zero :: SYNTH_Ctx_t where
  "SynthCtx_zero =
     \<lparr>SampleRate = 0, Channels = 0, Volume = 0, SYNTH_Ctx_t.Mute = 0, Initialized = 0\<rparr>"

definition synth_start :: "'hw \<Rightarrow> 'hw synth" where
  "synth_start h = \<lparr>SynthIO = SynthIO_zero, SynthCtx = SynthCtx_zero, hw = h\<rparr>"

subsection \<open>The public functions of synth.c\<close>

text \<open>
  Each function takes its C arguments and the state, and returns its status and the
  state after the call. \<open>pIO\<close> is \<open>None\<close> for a null pointer and \<open>Some io\<close> for a
  pointer to a table with contents \<open>io\<close>.
\<close>

definition SYNTH_RegisterBusIO ::
  "ptr \<Rightarrow> 'hw SYNTH_IO_t option \<Rightarrow> 'hw synth \<Rightarrow> int32_t \<times> 'hw synth" where
  "SYNTH_RegisterBusIO pObj pIO s =
     (case pIO of
        None \<Rightarrow> (SYNTH_STATUS_ERROR, s)
      | Some io \<Rightarrow> (SYNTH_STATUS_OK, s\<lparr>SynthIO := io\<rparr>))"

text \<open>
  An indirect call through a table entry \<open>f\<close> from the state \<open>s\<close>: \<open>call f s\<close> is the
  result code of \<^verbatim>\<open>f()\<close> and the whole state when it returns, and \<open>call f x s\<close>
  the same for \<^verbatim>\<open>f(x)\<close>. \<open>plain_call\<close> and \<open>plain_call1\<close> are these calls for a
  callback that does nothing but act on the backend.
\<close>

definition plain_call ::
  "('hw \<Rightarrow> int32_t \<times> 'hw) \<Rightarrow> 'hw synth \<Rightarrow> int32_t \<times> 'hw synth" where
  "plain_call f s = (case f (hw s) of (rc, h1) \<Rightarrow> (rc, s\<lparr>hw := h1\<rparr>))"

definition plain_call1 ::
  "('a \<Rightarrow> 'hw \<Rightarrow> int32_t \<times> 'hw) \<Rightarrow> 'a \<Rightarrow> 'hw synth \<Rightarrow> int32_t \<times> 'hw synth" where
  "plain_call1 f x s = (case f x (hw s) of (rc, h1) \<Rightarrow> (rc, s\<lparr>hw := h1\<rparr>))"

text \<open>
  \<^verbatim>\<open>SYNTH_Init\<close>, with the two indirect calls it makes as arguments: \<open>call_init\<close>
  for \<^verbatim>\<open>SynthIO.Init()\<close> and \<open>call_set_rate\<close> for \<^verbatim>\<open>SynthIO.SetSampleRate(sample_rate)\<close>.
  The five stores follow the first call and write the context as that call left it;
  the test of \<^verbatim>\<open>SynthIO.SetSampleRate\<close> reads the table as it is then.
\<close>

definition SYNTH_Init_with ::
  "(('hw \<Rightarrow> int32_t \<times> 'hw) \<Rightarrow> 'hw synth \<Rightarrow> int32_t \<times> 'hw synth) \<Rightarrow>
   ((uint32_t \<Rightarrow> 'hw \<Rightarrow> int32_t \<times> 'hw) \<Rightarrow> uint32_t \<Rightarrow> 'hw synth \<Rightarrow> int32_t \<times> 'hw synth) \<Rightarrow>
   ptr \<Rightarrow> uint32_t \<Rightarrow> uint8_t \<Rightarrow> 'hw synth \<Rightarrow> int32_t \<times> 'hw synth" where
  "SYNTH_Init_with call_init call_set_rate pObj sample_rate channels s =
     (case Init (SynthIO s) of
        None \<Rightarrow> (SYNTH_STATUS_ERROR, s)
      | Some init \<Rightarrow>
          (case call_init init s of
             (rc, s1) \<Rightarrow>
               if rc \<noteq> 0 then (SYNTH_STATUS_ERROR, s1)
               else
                 let s2 = s1\<lparr>SynthCtx := (SynthCtx s1)
                              \<lparr>SampleRate := sample_rate,
                               Channels := channels,
                               Volume := SYNTH_DEFAULT_VOLUME,
                               SYNTH_Ctx_t.Mute := 0,
                               Initialized := 1\<rparr>\<rparr>
                 in (case SetSampleRate (SynthIO s2) of
                       None \<Rightarrow> (SYNTH_STATUS_OK, s2)
                     | Some set_rate \<Rightarrow>
                         (SYNTH_STATUS_OK, snd (call_set_rate set_rate sample_rate s2)))))"

text \<open>\<^verbatim>\<open>SYNTH_Init\<close> with callbacks that act on the backend only.\<close>

definition SYNTH_Init ::
  "ptr \<Rightarrow> uint32_t \<Rightarrow> uint8_t \<Rightarrow> 'hw synth \<Rightarrow> int32_t \<times> 'hw synth" where
  "SYNTH_Init pObj sample_rate channels s =
     SYNTH_Init_with plain_call plain_call1 pObj sample_rate channels s"

definition SYNTH_DeInit :: "ptr \<Rightarrow> 'hw synth \<Rightarrow> int32_t \<times> 'hw synth" where
  "SYNTH_DeInit pObj s =
     (let s1 = (case DeInit (SynthIO s) of
                  None \<Rightarrow> s
                | Some deinit \<Rightarrow> s\<lparr>hw := snd (deinit (hw s))\<rparr>)
      in (SYNTH_STATUS_OK, s1\<lparr>SynthCtx := SynthCtx_zero\<rparr>))"

text \<open>
  \<^verbatim>\<open>uint32_t size = length * sizeof(int16_t)\<close>: the product of a \<^verbatim>\<open>uint32_t\<close> and the
  \<^verbatim>\<open>size_t\<close> 2, stored in a \<^verbatim>\<open>uint32_t\<close>, so it is taken modulo \<open>2 ^ 32\<close> whatever the
  width of \<^verbatim>\<open>size_t\<close>. The buffer pointer is cast and passed on, never read.
\<close>

definition SYNTH_PlayBuffer ::
  "ptr \<Rightarrow> ptr \<Rightarrow> uint32_t \<Rightarrow> 'hw synth \<Rightarrow> int32_t \<times> 'hw synth" where
  "SYNTH_PlayBuffer pObj buffer length' s =
     (if Initialized (SynthCtx s) = 0 then (SYNTH_STATUS_ERROR, s)
      else
        (case Transmit (SynthIO s) of
           None \<Rightarrow> (SYNTH_STATUS_ERROR, s)
         | Some transmit \<Rightarrow>
             (let size' = length' * 2
              in (case transmit buffer size' (hw s) of
                    (rc, h1) \<Rightarrow> (rc, s\<lparr>hw := h1\<rparr>)))))"

definition SYNTH_Stop :: "ptr \<Rightarrow> 'hw synth \<Rightarrow> int32_t \<times> 'hw synth" where
  "SYNTH_Stop pObj s = (SYNTH_STATUS_OK, s)"

definition SYNTH_SetSampleRate ::
  "ptr \<Rightarrow> uint32_t \<Rightarrow> 'hw synth \<Rightarrow> int32_t \<times> 'hw synth" where
  "SYNTH_SetSampleRate pObj sample_rate s =
     (let s1 = s\<lparr>SynthCtx := (SynthCtx s)\<lparr>SampleRate := sample_rate\<rparr>\<rparr>
      in (case SetSampleRate (SynthIO s1) of
            None \<Rightarrow> (SYNTH_STATUS_OK, s1)
          | Some set_rate \<Rightarrow>
              (SYNTH_STATUS_OK, s1\<lparr>hw := snd (set_rate sample_rate (hw s1))\<rparr>)))"

text \<open>
  The getters write through their second argument. It is \<open>None\<close> for a null pointer
  and \<open>Some old\<close> for a pointer to a cell holding \<open>old\<close>; the second component of
  the result is that cell after the call (\<open>None\<close> when there is no cell).
\<close>

definition SYNTH_GetSampleRate ::
  "ptr \<Rightarrow> uint32_t option \<Rightarrow> 'hw synth \<Rightarrow> (int32_t \<times> uint32_t option) \<times> 'hw synth" where
  "SYNTH_GetSampleRate pObj sample_rate s =
     (case sample_rate of
        None \<Rightarrow> ((SYNTH_STATUS_ERROR, None), s)
      | Some old \<Rightarrow> ((SYNTH_STATUS_OK, Some (SampleRate (SynthCtx s))), s))"

definition SYNTH_SetVolume ::
  "ptr \<Rightarrow> uint8_t \<Rightarrow> 'hw synth \<Rightarrow> int32_t \<times> 'hw synth" where
  "SYNTH_SetVolume pObj volume s =
     (let volume' = (if volume > 100 then 100 else volume)
      in (SYNTH_STATUS_OK, s\<lparr>SynthCtx := (SynthCtx s)\<lparr>Volume := volume'\<rparr>\<rparr>))"

definition SYNTH_GetVolume ::
  "ptr \<Rightarrow> uint8_t option \<Rightarrow> 'hw synth \<Rightarrow> (int32_t \<times> uint8_t option) \<times> 'hw synth" where
  "SYNTH_GetVolume pObj volume s =
     (case volume of
        None \<Rightarrow> ((SYNTH_STATUS_ERROR, None), s)
      | Some old \<Rightarrow> ((SYNTH_STATUS_OK, Some (Volume (SynthCtx s))), s))"

definition SYNTH_Mute ::
  "ptr \<Rightarrow> uint8_t \<Rightarrow> 'hw synth \<Rightarrow> int32_t \<times> 'hw synth" where
  "SYNTH_Mute pObj enable s =
     (let s1 = s\<lparr>SynthCtx := (SynthCtx s)\<lparr>SYNTH_Ctx_t.Mute := enable\<rparr>\<rparr>
      in (case SYNTH_IO_t.Mute (SynthIO s1) of
            None \<Rightarrow> (SYNTH_STATUS_OK, s1)
          | Some mute \<Rightarrow> (SYNTH_STATUS_OK, s1\<lparr>hw := snd (mute enable (hw s1))\<rparr>)))"

definition SYNTH_DefaultTransmit :: "ptr \<Rightarrow> uint32_t \<Rightarrow> 'hw \<Rightarrow> int32_t \<times> 'hw" where
  "SYNTH_DefaultTransmit pData size' h = (SYNTH_STATUS_ERROR, h)"

subsection \<open>Sequences of calls\<close>

text \<open>
  A caller is a list of calls of the public functions, run in order from some state.
  \<open>api_call\<close> dispatches one call and returns what the caller sees of it (the status
  and, for a getter, the output cell) with the state after it.
\<close>

datatype 'hw api =
    Call_RegisterBusIO ptr "'hw SYNTH_IO_t option"
  | Call_Init ptr uint32_t uint8_t
  | Call_DeInit ptr
  | Call_PlayBuffer ptr ptr uint32_t
  | Call_Stop ptr
  | Call_SetSampleRate ptr uint32_t
  | Call_GetSampleRate ptr "uint32_t option"
  | Call_SetVolume ptr uint8_t
  | Call_GetVolume ptr "uint8_t option"
  | Call_Mute ptr uint8_t

datatype api_result =
    Status int32_t
  | Status_u32 int32_t "uint32_t option"
  | Status_u8 int32_t "uint8_t option"

fun api_call :: "'hw api \<Rightarrow> 'hw synth \<Rightarrow> api_result \<times> 'hw synth" where
  "api_call (Call_RegisterBusIO p pIO) s =
     (case SYNTH_RegisterBusIO p pIO s of (rc, s') \<Rightarrow> (Status rc, s'))"
| "api_call (Call_Init p r c) s =
     (case SYNTH_Init p r c s of (rc, s') \<Rightarrow> (Status rc, s'))"
| "api_call (Call_DeInit p) s =
     (case SYNTH_DeInit p s of (rc, s') \<Rightarrow> (Status rc, s'))"
| "api_call (Call_PlayBuffer p b n) s =
     (case SYNTH_PlayBuffer p b n s of (rc, s') \<Rightarrow> (Status rc, s'))"
| "api_call (Call_Stop p) s =
     (case SYNTH_Stop p s of (rc, s') \<Rightarrow> (Status rc, s'))"
| "api_call (Call_SetSampleRate p r) s =
     (case SYNTH_SetSampleRate p r s of (rc, s') \<Rightarrow> (Status rc, s'))"
| "api_call (Call_GetSampleRate p out) s =
     (case SYNTH_GetSampleRate p out s of ((rc, cell), s') \<Rightarrow> (Status_u32 rc cell, s'))"
| "api_call (Call_SetVolume p v) s =
     (case SYNTH_SetVolume p v s of (rc, s') \<Rightarrow> (Status rc, s'))"
| "api_call (Call_GetVolume p out) s =
     (case SYNTH_GetVolume p out s of ((rc, cell), s') \<Rightarrow> (Status_u8 rc cell, s'))"
| "api_call (Call_Mute p e) s =
     (case SYNTH_Mute p e s of (rc, s') \<Rightarrow> (Status rc, s'))"

fun api_run :: "'hw api list \<Rightarrow> 'hw synth \<Rightarrow> api_result list \<times> 'hw synth" where
  "api_run [] s = ([], s)"
| "api_run (c # cs) s =
     (case api_call c s of
        (r, s') \<Rightarrow> (case api_run cs s' of (rs, s'') \<Rightarrow> (r # rs, s'')))"

subsection \<open>A backend that records its calls\<close>

text \<open>
  For concrete runs: \<open>hw\<close> is the list of the calls the backend has received, each
  callback appends its own call with its arguments and returns a fixed result code.
\<close>

datatype io_event =
    Ev_Init
  | Ev_DeInit
  | Ev_Transmit ptr uint32_t
  | Ev_SetSampleRate uint32_t
  | Ev_GetSampleRate ptr
  | Ev_Mute uint8_t

definition recorder :: "int32_t \<Rightarrow> int32_t \<Rightarrow> io_event list SYNTH_IO_t" where
  "recorder init_rc rc =
     \<lparr>Init = Some (\<lambda>h. (init_rc, h @ [Ev_Init])),
      DeInit = Some (\<lambda>h. (rc, h @ [Ev_DeInit])),
      Transmit = Some (\<lambda>p n h. (rc, h @ [Ev_Transmit p n])),
      SetSampleRate = Some (\<lambda>r h. (rc, h @ [Ev_SetSampleRate r])),
      GetSampleRate = Some (\<lambda>p h. (rc, h @ [Ev_GetSampleRate p])),
      SYNTH_IO_t.Mute = Some (\<lambda>e h. (rc, h @ [Ev_Mute e]))\<rparr>"

text \<open>
  \<open>registered\<close>: a recorder registered on the driver as it starts, not yet
  initialised. \<open>ready\<close>: the same after a successful \<^verbatim>\<open>SYNTH_Init(48000, 2)\<close>.
\<close>

definition registered :: "int32_t \<Rightarrow> int32_t \<Rightarrow> io_event list synth" where
  "registered init_rc rc =
     snd (SYNTH_RegisterBusIO NULL (Some (recorder init_rc rc)) (synth_start []))"

definition ready :: "int32_t \<Rightarrow> io_event list synth" where
  "ready rc = snd (SYNTH_Init NULL 48000 2 (registered 0 rc))"

text \<open>
  \<open>failing\<close>: a recorder whose \<open>Init\<close> callback reports failure, registered, with a
  sample rate and a volume already stored in the context.
  \<open>no_transmit\<close>: an initialised driver whose backend has no \<open>Transmit\<close> callback.
  \<open>replaced\<close>: a recorder whose callbacks all fail, then one whose callbacks all
  succeed, registered one after the other.
\<close>

definition failing :: "io_event list synth" where
  "failing =
     snd (SYNTH_SetVolume NULL 30 (snd (SYNTH_SetSampleRate NULL 44100 (registered 1 0))))"

definition no_transmit :: "io_event list synth" where
  "no_transmit =
     snd (SYNTH_Init NULL 48000 2
       (snd (SYNTH_RegisterBusIO NULL (Some ((recorder 0 0)\<lparr>Transmit := None\<rparr>))
          (synth_start []))))"

definition replaced :: "io_event list synth" where
  "replaced =
     snd (SYNTH_RegisterBusIO NULL (Some (recorder 0 0))
       (snd (SYNTH_RegisterBusIO NULL (Some (recorder 1 7)) (synth_start []))))"

text \<open>
  Two callbacks that call back into the driver. \<open>init_calls_setters\<close> is the indirect
  call of an \<open>Init\<close> callback that acts on the backend and then calls
  \<^verbatim>\<open>SYNTH_SetSampleRate(11111)\<close> and \<^verbatim>\<open>SYNTH_SetVolume(99)\<close> before it returns;
  \<open>set_rate_calls_setVolume\<close> that of a \<open>SetSampleRate\<close> callback that acts on the
  backend and then calls \<^verbatim>\<open>SYNTH_SetVolume(10)\<close>.
\<close>

definition init_calls_setters ::
  "('hw \<Rightarrow> int32_t \<times> 'hw) \<Rightarrow> 'hw synth \<Rightarrow> int32_t \<times> 'hw synth" where
  "init_calls_setters f s =
     (case plain_call f s of
        (rc, s1) \<Rightarrow>
          (rc, snd (SYNTH_SetVolume NULL 99 (snd (SYNTH_SetSampleRate NULL 11111 s1)))))"

definition set_rate_calls_setVolume ::
  "(uint32_t \<Rightarrow> 'hw \<Rightarrow> int32_t \<times> 'hw) \<Rightarrow> uint32_t \<Rightarrow> 'hw synth \<Rightarrow> int32_t \<times> 'hw synth" where
  "set_rate_calls_setVolume f r s =
     (case plain_call1 f r s of (rc, s1) \<Rightarrow> (rc, snd (SYNTH_SetVolume NULL 10 s1)))"

section \<open>Properties\<close>

subsection \<open>Evaluation of the constants and the example states\<close>

lemmas status_defs = SYNTH_STATUS_OK_def SYNTH_STATUS_ERROR_def

text \<open>\<^verbatim>\<open>SYNTH_Init\<close> with the two plain calls written out.\<close>

lemma SYNTH_Init_plain:
  "SYNTH_Init pObj sample_rate channels s =
     (case Init (SynthIO s) of
        None \<Rightarrow> (SYNTH_STATUS_ERROR, s)
      | Some init \<Rightarrow>
          (case init (hw s) of
             (rc, h1) \<Rightarrow>
               if rc \<noteq> 0 then (SYNTH_STATUS_ERROR, s\<lparr>hw := h1\<rparr>)
               else
                 let s2 = s\<lparr>hw := h1,
                            SynthCtx := (SynthCtx s)
                              \<lparr>SampleRate := sample_rate,
                               Channels := channels,
                               Volume := SYNTH_DEFAULT_VOLUME,
                               SYNTH_Ctx_t.Mute := 0,
                               Initialized := 1\<rparr>\<rparr>
                 in (case SetSampleRate (SynthIO s2) of
                       None \<Rightarrow> (SYNTH_STATUS_OK, s2)
                     | Some set_rate \<Rightarrow>
                         (SYNTH_STATUS_OK, s2\<lparr>hw := snd (set_rate sample_rate (hw s2))\<rparr>))))"
  by (simp add: SYNTH_Init_def SYNTH_Init_with_def plain_call_def plain_call1_def Let_def
      split: option.split prod.split)

lemma recorder_simps:
  "Init (recorder irc rc) = Some (\<lambda>h. (irc, h @ [Ev_Init]))"
  "DeInit (recorder irc rc) = Some (\<lambda>h. (rc, h @ [Ev_DeInit]))"
  "Transmit (recorder irc rc) = Some (\<lambda>p n h. (rc, h @ [Ev_Transmit p n]))"
  "SetSampleRate (recorder irc rc) = Some (\<lambda>r h. (rc, h @ [Ev_SetSampleRate r]))"
  "SYNTH_IO_t.Mute (recorder irc rc) = Some (\<lambda>e h. (rc, h @ [Ev_Mute e]))"
  by (simp_all add: recorder_def)

lemma SynthCtx_zero_simps:
  "SampleRate SynthCtx_zero = 0"
  "Channels SynthCtx_zero = 0"
  "Volume SynthCtx_zero = 0"
  "SYNTH_Ctx_t.Mute SynthCtx_zero = 0"
  "Initialized SynthCtx_zero = 0"
  by (simp_all add: SynthCtx_zero_def)

lemma registered_simps:
  "SynthIO (registered irc rc) = recorder irc rc"
  "SynthCtx (registered irc rc) = SynthCtx_zero"
  "hw (registered irc rc) = []"
  by (simp_all add: registered_def SYNTH_RegisterBusIO_def synth_start_def)

lemma ready_simps:
  "SynthIO (ready rc) = recorder 0 rc"
  "SynthCtx (ready rc) =
     \<lparr>SampleRate = 48000, Channels = 2, Volume = 75, SYNTH_Ctx_t.Mute = 0, Initialized = 1\<rparr>"
  "hw (ready rc) = [Ev_Init, Ev_SetSampleRate 48000]"
  by (simp_all add: ready_def SYNTH_Init_plain registered_simps recorder_simps
      SynthCtx_zero_def SYNTH_DEFAULT_VOLUME_def)

lemma failing_simps:
  "SynthIO failing = recorder 1 0"
  "SynthCtx failing =
     \<lparr>SampleRate = 44100, Channels = 0, Volume = 30, SYNTH_Ctx_t.Mute = 0, Initialized = 0\<rparr>"
  "hw failing = [Ev_SetSampleRate 44100]"
  by (simp_all add: failing_def SYNTH_SetVolume_def SYNTH_SetSampleRate_def Let_def
      registered_simps recorder_simps SynthCtx_zero_def)

lemma no_transmit_simps:
  "Transmit (SynthIO no_transmit) = None"
  "Initialized (SynthCtx no_transmit) = 1"
  by (simp_all add: no_transmit_def SYNTH_Init_plain SYNTH_RegisterBusIO_def recorder_def
      synth_start_def Let_def)

subsection \<open>The byte length and the volume bound\<close>

lemma unat_twice: "unat (n * 2 :: uint32_t) = (unat n * 2) mod 2 ^ 32"
  by (simp add: unat_word_ariths)

lemma SetVolume_le: "Volume (SynthCtx (snd (SYNTH_SetVolume pObj v s))) \<le> 100"
  by (simp add: SYNTH_SetVolume_def Let_def not_less)

text \<open>No public function stores a volume above 100: one case for each function.\<close>

lemma api_call_Volume:
  assumes "Volume (SynthCtx s) \<le> 100"
  shows "Volume (SynthCtx (snd (api_call c s))) \<le> 100"
proof (cases c)
  case (Call_RegisterBusIO p pIO)
  with assms show ?thesis
    by (simp add: SYNTH_RegisterBusIO_def split: option.split)
next
  case (Call_Init p r ch)
  with assms show ?thesis
    by (simp add: SYNTH_Init_plain SYNTH_DEFAULT_VOLUME_def Let_def
        split: option.split prod.split)
next
  case (Call_DeInit p)
  then show ?thesis
    by (simp add: SYNTH_DeInit_def SynthCtx_zero_def Let_def)
next
  case (Call_PlayBuffer p b n)
  with assms show ?thesis
    by (simp add: SYNTH_PlayBuffer_def Let_def split: option.split prod.split)
next
  case (Call_Stop p)
  with assms show ?thesis by (simp add: SYNTH_Stop_def)
next
  case (Call_SetSampleRate p r)
  with assms show ?thesis
    by (simp add: SYNTH_SetSampleRate_def Let_def split: option.split)
next
  case (Call_GetSampleRate p out)
  with assms show ?thesis
    by (simp add: SYNTH_GetSampleRate_def split: option.split)
next
  case (Call_SetVolume p v)
  then show ?thesis by (simp add: SetVolume_le split_beta)
next
  case (Call_GetVolume p out)
  with assms show ?thesis
    by (simp add: SYNTH_GetVolume_def split: option.split)
next
  case (Call_Mute p e)
  with assms show ?thesis
    by (simp add: SYNTH_Mute_def Let_def split: option.split)
qed

lemma api_run_Volume:
  "Volume (SynthCtx s) \<le> 100 \<Longrightarrow> Volume (SynthCtx (snd (api_run cs s))) \<le> 100"
proof (induction cs arbitrary: s)
  case Nil
  then show ?case by simp
next
  case (Cons c cs)
  from Cons.prems have "Volume (SynthCtx (snd (api_call c s))) \<le> 100"
    by (rule api_call_Volume)
  then have "Volume (SynthCtx (snd (api_run cs (snd (api_call c s))))) \<le> 100"
    by (rule Cons.IH)
  then show ?case by (simp add: split_beta)
qed

section \<open>The claims\<close>

subsection \<open>C1: what the initialized flag gates\<close>

text \<open>
  On the driver as it starts (\<open>Initialized = 0\<close>, nothing registered),
  \<^verbatim>\<open>SYNTH_SetVolume(50)\<close> returns \<^verbatim>\<open>SYNTH_STATUS_OK\<close> and the stored volume changes from
  0 to 50: the call is neither refused nor without effect.
\<close>

theorem setVolume_not_gated:
  "Initialized (SynthCtx (synth_start ([] :: io_event list))) = 0 \<and>
   fst (SYNTH_SetVolume NULL 50 (synth_start ([] :: io_event list))) = SYNTH_STATUS_OK \<and>
   Volume (SynthCtx (synth_start ([] :: io_event list))) = 0 \<and>
   Volume (SynthCtx (snd (SYNTH_SetVolume NULL 50 (synth_start ([] :: io_event list))))) = 50"
  by (simp add: SYNTH_SetVolume_def synth_start_def SynthCtx_zero_def)

text \<open>
  Claim C1, as amended. When \<open>Initialized\<close> is 0, only \<^verbatim>\<open>SYNTH_PlayBuffer\<close> is gated: it
  returns \<^verbatim>\<open>SYNTH_STATUS_ERROR\<close> (which is not OK) and leaves the whole state as it was,
  calling no callback. The other functions do not look at the flag: the two setters
  and \<^verbatim>\<open>SYNTH_Mute\<close> return OK and store their argument (the volume capped at 100), the
  two getters return OK with the stored value when their output pointer is not null,
  \<^verbatim>\<open>SYNTH_Stop\<close> returns OK, and \<^verbatim>\<open>SYNTH_DeInit\<close> returns OK and zeroes the context.
\<close>

theorem only_playBuffer_gated:
  assumes "Initialized (SynthCtx s) = 0"
  shows "SYNTH_PlayBuffer pObj buffer n s = (SYNTH_STATUS_ERROR, s) \<and>
    SYNTH_STATUS_ERROR \<noteq> SYNTH_STATUS_OK \<and>
    fst (SYNTH_SetSampleRate pObj r s) = SYNTH_STATUS_OK \<and>
    SampleRate (SynthCtx (snd (SYNTH_SetSampleRate pObj r s))) = r \<and>
    SYNTH_GetSampleRate pObj (Some old32) s =
      ((SYNTH_STATUS_OK, Some (SampleRate (SynthCtx s))), s) \<and>
    fst (SYNTH_SetVolume pObj v s) = SYNTH_STATUS_OK \<and>
    Volume (SynthCtx (snd (SYNTH_SetVolume pObj v s))) = min v 100 \<and>
    SYNTH_GetVolume pObj (Some old8) s =
      ((SYNTH_STATUS_OK, Some (Volume (SynthCtx s))), s) \<and>
    fst (SYNTH_Mute pObj e s) = SYNTH_STATUS_OK \<and>
    SYNTH_Ctx_t.Mute (SynthCtx (snd (SYNTH_Mute pObj e s))) = e \<and>
    SYNTH_Stop pObj s = (SYNTH_STATUS_OK, s) \<and>
    fst (SYNTH_DeInit pObj s) = SYNTH_STATUS_OK \<and>
    SynthCtx (snd (SYNTH_DeInit pObj s)) = SynthCtx_zero"
  using assms
  by (auto simp add: SYNTH_PlayBuffer_def SYNTH_SetSampleRate_def SYNTH_GetSampleRate_def
      SYNTH_SetVolume_def SYNTH_GetVolume_def SYNTH_Mute_def SYNTH_Stop_def SYNTH_DeInit_def
      status_defs Let_def min_def not_less split: option.split)

text \<open>The same on a registered, uninitialised recorder.\<close>

theorem only_playBuffer_gated_witness:
  "Initialized (SynthCtx (registered 0 0)) = 0 \<and>
   SYNTH_PlayBuffer NULL (Addr 0) 256 (registered 0 0) = (SYNTH_STATUS_ERROR, registered 0 0) \<and>
   fst (SYNTH_SetSampleRate NULL 22050 (registered 0 0)) = SYNTH_STATUS_OK \<and>
   SampleRate (SynthCtx (snd (SYNTH_SetSampleRate NULL 22050 (registered 0 0)))) = 22050 \<and>
   fst (SYNTH_SetVolume NULL 50 (registered 0 0)) = SYNTH_STATUS_OK \<and>
   Volume (SynthCtx (snd (SYNTH_SetVolume NULL 50 (registered 0 0)))) = 50 \<and>
   fst (SYNTH_Mute NULL 1 (registered 0 0)) = SYNTH_STATUS_OK \<and>
   SYNTH_Stop NULL (registered 0 0) = (SYNTH_STATUS_OK, registered 0 0) \<and>
   fst (SYNTH_DeInit NULL (registered 0 0)) = SYNTH_STATUS_OK"
proof -
  have h: "Initialized (SynthCtx (registered 0 0)) = 0"
    by (simp add: registered_simps SynthCtx_zero_simps)
  show ?thesis
    using h only_playBuffer_gated [OF h, where pObj = NULL and buffer = "Addr 0" and n = 256
        and r = 22050 and ?old32.0 = 0 and v = 50 and ?old8.0 = 0 and e = 1]
    by simp
qed

subsection \<open>C2: the byte length handed to the transmit callback\<close>

text \<open>
  With \<open>2 ^ 31\<close> samples the product wraps: the recorder receives one transmit call
  of size 0, which is not twice the length.
\<close>

theorem playBuffer_size_wraps:
  "Initialized (SynthCtx (ready 0)) \<noteq> 0 \<and>
   fst (SYNTH_PlayBuffer NULL (Addr 0) 0x80000000 (ready 0)) = SYNTH_STATUS_OK \<and>
   hw (snd (SYNTH_PlayBuffer NULL (Addr 0) 0x80000000 (ready 0))) =
     hw (ready 0) @ [Ev_Transmit (Addr 0) 0] \<and>
   unat (0 :: uint32_t) \<noteq> unat (0x80000000 :: uint32_t) * 2"
  by (simp add: SYNTH_PlayBuffer_def ready_simps recorder_simps status_defs)

text \<open>
  Claim C2, as amended. When the driver is initialised and a transmit callback is
  registered, \<^verbatim>\<open>SYNTH_PlayBuffer\<close> with length \<open>n\<close> applies that callback once, to the
  buffer and the size \<open>n * 2\<close> computed in 32 bits, and returns the callback's result
  code unchanged. That size is \<open>2 * n\<close> modulo \<open>2 ^ 32\<close>, hence exactly \<open>2 * n\<close> for
  every \<open>n < 2 ^ 31\<close>. On a recorder, the call appends exactly one transmit event, of
  that size.
\<close>

theorem playBuffer_forwards_size_mod_2_32:
  assumes "Initialized (SynthCtx s) \<noteq> 0" and "Transmit (SynthIO s) = Some transmit"
  shows "SYNTH_PlayBuffer pObj buffer n s =
           (fst (transmit buffer (n * 2) (hw s)),
            s\<lparr>hw := snd (transmit buffer (n * 2) (hw s))\<rparr>) \<and>
         unat (n * 2) = (unat n * 2) mod 2 ^ 32 \<and>
         (unat n < 2 ^ 31 \<longrightarrow> unat (n * 2) = unat n * 2) \<and>
         (SynthIO s' = recorder init_rc rc \<longrightarrow> Initialized (SynthCtx s') \<noteq> 0 \<longrightarrow>
            SYNTH_PlayBuffer pObj buffer n s' =
              (rc, s'\<lparr>hw := hw s' @ [Ev_Transmit buffer (n * 2)]\<rparr>))"
  using assms
  by (simp add: SYNTH_PlayBuffer_def unat_twice recorder_simps split: prod.split)

text \<open>256 samples at address 4096: one transmit call of 512 bytes.\<close>

theorem playBuffer_forwards_size_mod_2_32_witness:
  "Initialized (SynthCtx (ready 0)) \<noteq> 0 \<and>
   Transmit (SynthIO (ready 0)) = Some (\<lambda>p n h. (0, h @ [Ev_Transmit p n])) \<and>
   unat (256 :: uint32_t) < 2 ^ 31 \<and>
   SynthIO (ready 0) = recorder 0 0 \<and>
   SYNTH_PlayBuffer NULL (Addr 4096) 256 (ready 0) =
     (0, (ready 0)\<lparr>hw := [Ev_Init, Ev_SetSampleRate 48000, Ev_Transmit (Addr 4096) 512]\<rparr>) \<and>
   unat (256 * 2 :: uint32_t) = 512"
proof -
  have h1: "Initialized (SynthCtx (ready 0)) \<noteq> 0"
    by (simp add: ready_simps)
  have h2: "Transmit (SynthIO (ready 0)) = Some (\<lambda>p n h. (0, h @ [Ev_Transmit p n]))"
    by (simp add: ready_simps recorder_simps)
  show ?thesis
    using h1 h2 playBuffer_forwards_size_mod_2_32 [OF h1 h2, where pObj = NULL
        and buffer = "Addr 4096" and n = 256 and s' = "ready 0" and init_rc = 0 and rc = 0]
    by (simp add: ready_simps)
qed

subsection \<open>C3: a failing backend init\<close>

text \<open>
  An \<open>Init\<close> callback that calls \<^verbatim>\<open>SYNTH_SetSampleRate(11111)\<close> and
  \<^verbatim>\<open>SYNTH_SetVolume(99)\<close> and then returns 1, on a context holding 44100 Hz and volume
  30: the init returns \<^verbatim>\<open>SYNTH_STATUS_ERROR\<close>, the context holds 11111 Hz and volume 99,
  and a following \<^verbatim>\<open>SYNTH_GetSampleRate\<close> yields 11111.
\<close>

theorem init_failure_after_callback_wrote:
  "SynthIO failing = recorder 1 0 \<and>
   fst (init_calls_setters (the (Init (recorder 1 0))) failing) = 1 \<and>
   SampleRate (SynthCtx failing) = 44100 \<and>
   Volume (SynthCtx failing) = 30 \<and>
   fst (SYNTH_Init_with init_calls_setters plain_call1 NULL 48000 2 failing) =
     SYNTH_STATUS_ERROR \<and>
   SampleRate (SynthCtx (snd (SYNTH_Init_with init_calls_setters plain_call1 NULL 48000 2
     failing))) = 11111 \<and>
   Volume (SynthCtx (snd (SYNTH_Init_with init_calls_setters plain_call1 NULL 48000 2
     failing))) = 99 \<and>
   fst (SYNTH_GetSampleRate NULL (Some 0)
          (snd (SYNTH_Init_with init_calls_setters plain_call1 NULL 48000 2 failing))) =
     (SYNTH_STATUS_OK, Some 11111)"
  by (simp add: SYNTH_Init_with_def init_calls_setters_def plain_call_def
      SYNTH_SetSampleRate_def SYNTH_SetVolume_def SYNTH_GetSampleRate_def Let_def
      failing_simps recorder_simps status_defs)

text \<open>
  Claim C3, as amended. If the registered \<open>Init\<close> callback returns a non-zero
  result, \<^verbatim>\<open>SYNTH_Init\<close> returns \<^verbatim>\<open>SYNTH_STATUS_ERROR\<close> and writes nothing itself: the
  state after the failed call is the state as the callback left it. Provided the
  callback left the context as it was (it made no call back into the driver that
  writes it), no field of the context is modified by the failed call and a following
  \<^verbatim>\<open>SYNTH_GetSampleRate\<close> yields the sample rate the context held before. A callback
  that acts on the backend only meets the proviso, so the same holds for
  \<open>SYNTH_Init\<close>.
\<close>

theorem init_backend_failure_writes_nothing:
  assumes "Init (SynthIO s) = Some init" and "call_init init s = (rc, s1)" and "rc \<noteq> 0"
  shows "SYNTH_Init_with call_init call_set_rate pObj sample_rate channels s =
           (SYNTH_STATUS_ERROR, s1) \<and>
         SYNTH_STATUS_ERROR \<noteq> SYNTH_STATUS_OK \<and>
         (SynthCtx s1 = SynthCtx s \<longrightarrow>
            SynthCtx (snd (SYNTH_Init_with call_init call_set_rate pObj sample_rate channels s)) =
              SynthCtx s \<and>
            fst (SYNTH_GetSampleRate pObj' (Some old)
                   (snd (SYNTH_Init_with call_init call_set_rate pObj sample_rate channels s))) =
              (SYNTH_STATUS_OK, Some (SampleRate (SynthCtx s)))) \<and>
         SynthCtx (snd (plain_call init s)) = SynthCtx s \<and>
         (fst (init (hw s)) \<noteq> 0 \<longrightarrow>
            fst (SYNTH_Init pObj sample_rate channels s) = SYNTH_STATUS_ERROR \<and>
            SynthCtx (snd (SYNTH_Init pObj sample_rate channels s)) = SynthCtx s \<and>
            fst (SYNTH_GetSampleRate pObj' (Some old)
                   (snd (SYNTH_Init pObj sample_rate channels s))) =
              (SYNTH_STATUS_OK, Some (SampleRate (SynthCtx s))))"
proof -
  obtain rc' h1 where call: "init (hw s) = (rc', h1)"
    by (cases "init (hw s)")
  from assms have general:
    "SYNTH_Init_with call_init call_set_rate pObj sample_rate channels s =
       (SYNTH_STATUS_ERROR, s1)"
    by (simp add: SYNTH_Init_with_def)
  from assms(1) call have plain:
    "rc' \<noteq> 0 \<Longrightarrow> SYNTH_Init pObj sample_rate channels s = (SYNTH_STATUS_ERROR, s\<lparr>hw := h1\<rparr>)"
    by (simp add: SYNTH_Init_plain)
  from general plain call show ?thesis
    by (auto simp add: SYNTH_GetSampleRate_def plain_call_def status_defs)
qed

text \<open>
  \<^verbatim>\<open>SYNTH_Init(48000, 2)\<close> on a context holding 44100 Hz and volume 30, with the
  recorder's failing \<open>Init\<close>, which writes its log only.
\<close>

theorem init_backend_failure_writes_nothing_witness:
  "Init (SynthIO failing) = Some (\<lambda>h. (1, h @ [Ev_Init])) \<and>
   plain_call (\<lambda>h. (1, h @ [Ev_Init])) failing =
     (1, failing\<lparr>hw := [Ev_SetSampleRate 44100, Ev_Init]\<rparr>) \<and>
   (1 :: int32_t) \<noteq> 0 \<and>
   SynthCtx (failing\<lparr>hw := [Ev_SetSampleRate 44100, Ev_Init]\<rparr>) = SynthCtx failing \<and>
   fst ((\<lambda>h. (1 :: int32_t, h @ [Ev_Init])) (hw failing)) \<noteq> 0 \<and>
   SYNTH_Init_with plain_call plain_call1 NULL 48000 2 failing =
     (SYNTH_STATUS_ERROR, failing\<lparr>hw := [Ev_SetSampleRate 44100, Ev_Init]\<rparr>) \<and>
   fst (SYNTH_Init NULL 48000 2 failing) = SYNTH_STATUS_ERROR \<and>
   SynthCtx (snd (SYNTH_Init NULL 48000 2 failing)) =
     \<lparr>SampleRate = 44100, Channels = 0, Volume = 30, SYNTH_Ctx_t.Mute = 0, Initialized = 0\<rparr> \<and>
   fst (SYNTH_GetSampleRate NULL (Some 0) (snd (SYNTH_Init NULL 48000 2 failing))) =
     (SYNTH_STATUS_OK, Some 44100)"
proof -
  have h1: "Init (SynthIO failing) = Some (\<lambda>h. (1, h @ [Ev_Init]))"
    by (simp add: failing_simps recorder_simps)
  have h2: "plain_call (\<lambda>h. (1, h @ [Ev_Init])) failing =
      (1, failing\<lparr>hw := [Ev_SetSampleRate 44100, Ev_Init]\<rparr>)"
    by (simp add: plain_call_def failing_simps)
  have h3: "(1 :: int32_t) \<noteq> 0"
    by simp
  show ?thesis
    using h1 h2 h3 init_backend_failure_writes_nothing [where call_init = plain_call
        and init = "\<lambda>h. (1, h @ [Ev_Init])" and s = failing and rc = 1
        and ?s1.0 = "failing\<lparr>hw := [Ev_SetSampleRate 44100, Ev_Init]\<rparr>"
        and call_set_rate = plain_call1 and pObj = NULL and pObj' = NULL
        and sample_rate = 48000 and channels = 2 and old = 0, OF h1 h2 h3]
    by (simp add: failing_simps)
qed

subsection \<open>C4: a successful init\<close>

text \<open>
  A \<open>SetSampleRate\<close> callback that calls \<^verbatim>\<open>SYNTH_SetVolume(10)\<close>, with an \<open>Init\<close>
  callback that returns 0: \<^verbatim>\<open>SYNTH_Init(48000, 2)\<close> returns \<^verbatim>\<open>SYNTH_STATUS_OK\<close> and leaves
  the context with volume 10, not the default 75.
\<close>

theorem init_success_after_callback_wrote:
  "SynthIO (registered 0 0) = recorder 0 0 \<and>
   fst (plain_call (the (Init (recorder 0 0))) (registered 0 0)) = 0 \<and>
   fst (SYNTH_Init_with plain_call set_rate_calls_setVolume NULL 48000 2 (registered 0 0)) =
     SYNTH_STATUS_OK \<and>
   Volume (SynthCtx (snd (SYNTH_Init_with plain_call set_rate_calls_setVolume NULL 48000 2
     (registered 0 0)))) = 10 \<and>
   SYNTH_DEFAULT_VOLUME \<noteq> 10"
  by (simp add: SYNTH_Init_with_def set_rate_calls_setVolume_def plain_call_def
      plain_call1_def SYNTH_SetVolume_def Let_def registered_simps recorder_simps
      SYNTH_DEFAULT_VOLUME_def status_defs)

text \<open>
  Claim C4, as amended. If the registered \<open>Init\<close> callback is present and returns
  0, \<^verbatim>\<open>SYNTH_Init(sample_rate, channels)\<close> returns \<^verbatim>\<open>SYNTH_STATUS_OK\<close>. It writes the whole
  context: the given sample rate and channels, volume 75 (the default), mute 0,
  initialized 1; then, if a \<open>SetSampleRate\<close> callback is registered, it calls it once
  with the given rate and drops its result code, so the status is OK whatever that
  callback returns. The context is left with those five values provided that
  callback, if there is one, left the context as it was (it made no call back into
  the driver that writes it). A callback that acts on the backend only meets the
  proviso, so \<open>SYNTH_Init\<close> leaves exactly those five values.
\<close>

theorem init_success_writes_context:
  assumes "Init (SynthIO s) = Some init" and "call_init init s = (0, s1)"
  shows "fst (SYNTH_Init_with call_init call_set_rate pObj sample_rate channels s) =
           SYNTH_STATUS_OK \<and>
         SYNTH_DEFAULT_VOLUME = 75 \<and>
         snd (SYNTH_Init_with call_init call_set_rate pObj sample_rate channels s) =
           (case SetSampleRate (SynthIO s1) of
              None \<Rightarrow>
                s1\<lparr>SynthCtx := \<lparr>SampleRate = sample_rate, Channels = channels, Volume = 75,
                                SYNTH_Ctx_t.Mute = 0, Initialized = 1\<rparr>\<rparr>
            | Some set_rate \<Rightarrow>
                snd (call_set_rate set_rate sample_rate
                  (s1\<lparr>SynthCtx := \<lparr>SampleRate = sample_rate, Channels = channels,
                                   Volume = 75, SYNTH_Ctx_t.Mute = 0, Initialized = 1\<rparr>\<rparr>))) \<and>
         ((case SetSampleRate (SynthIO s1) of
             None \<Rightarrow> True
           | Some set_rate \<Rightarrow>
               SynthCtx (snd (call_set_rate set_rate sample_rate
                 (s1\<lparr>SynthCtx := \<lparr>SampleRate = sample_rate, Channels = channels,
                                  Volume = 75, SYNTH_Ctx_t.Mute = 0, Initialized = 1\<rparr>\<rparr>))) =
               \<lparr>SampleRate = sample_rate, Channels = channels, Volume = 75,
                SYNTH_Ctx_t.Mute = 0, Initialized = 1\<rparr>) \<longrightarrow>
          SynthCtx (snd (SYNTH_Init_with call_init call_set_rate pObj sample_rate channels s)) =
            \<lparr>SampleRate = sample_rate, Channels = channels, Volume = 75,
             SYNTH_Ctx_t.Mute = 0, Initialized = 1\<rparr>) \<and>
         (fst (init (hw s)) = 0 \<longrightarrow>
            fst (SYNTH_Init pObj sample_rate channels s) = SYNTH_STATUS_OK \<and>
            SynthCtx (snd (SYNTH_Init pObj sample_rate channels s)) =
              \<lparr>SampleRate = sample_rate, Channels = channels, Volume = 75,
               SYNTH_Ctx_t.Mute = 0, Initialized = 1\<rparr> \<and>
            SynthIO (snd (SYNTH_Init pObj sample_rate channels s)) = SynthIO s \<and>
            hw (snd (SYNTH_Init pObj sample_rate channels s)) =
              (case SetSampleRate (SynthIO s) of
                 None \<Rightarrow> snd (init (hw s))
               | Some set_rate \<Rightarrow> snd (set_rate sample_rate (snd (init (hw s))))))"
proof -
  obtain sr ch vol mu ini where ctx1: "SynthCtx s1 =
      \<lparr>SampleRate = sr, Channels = ch, Volume = vol, SYNTH_Ctx_t.Mute = mu, Initialized = ini\<rparr>"
    by (cases "SynthCtx s1")
  from assms ctx1 have general:
    "SYNTH_Init_with call_init call_set_rate pObj sample_rate channels s =
       (SYNTH_STATUS_OK,
        case SetSampleRate (SynthIO s1) of
          None \<Rightarrow>
            s1\<lparr>SynthCtx := \<lparr>SampleRate = sample_rate, Channels = channels, Volume = 75,
                            SYNTH_Ctx_t.Mute = 0, Initialized = 1\<rparr>\<rparr>
        | Some set_rate \<Rightarrow>
            snd (call_set_rate set_rate sample_rate
              (s1\<lparr>SynthCtx := \<lparr>SampleRate = sample_rate, Channels = channels,
                               Volume = 75, SYNTH_Ctx_t.Mute = 0, Initialized = 1\<rparr>\<rparr>)))"
    by (simp add: SYNTH_Init_with_def SYNTH_DEFAULT_VOLUME_def Let_def split: option.split)
  obtain rc' h1 where call: "init (hw s) = (rc', h1)"
    by (cases "init (hw s)")
  obtain sr' ch' vol' mu' ini' where ctx: "SynthCtx s =
      \<lparr>SampleRate = sr', Channels = ch', Volume = vol', SYNTH_Ctx_t.Mute = mu',
       Initialized = ini'\<rparr>"
    by (cases "SynthCtx s")
  from assms(1) call ctx have plain:
    "rc' = 0 \<Longrightarrow>
       fst (SYNTH_Init pObj sample_rate channels s) = SYNTH_STATUS_OK \<and>
       SynthCtx (snd (SYNTH_Init pObj sample_rate channels s)) =
         \<lparr>SampleRate = sample_rate, Channels = channels, Volume = 75,
          SYNTH_Ctx_t.Mute = 0, Initialized = 1\<rparr> \<and>
       SynthIO (snd (SYNTH_Init pObj sample_rate channels s)) = SynthIO s \<and>
       hw (snd (SYNTH_Init pObj sample_rate channels s)) =
         (case SetSampleRate (SynthIO s) of
            None \<Rightarrow> h1
          | Some set_rate \<Rightarrow> snd (set_rate sample_rate h1))"
    by (simp add: SYNTH_Init_plain SYNTH_DEFAULT_VOLUME_def Let_def split: option.split)
  have vol: "SYNTH_DEFAULT_VOLUME = 75"
    by (simp add: SYNTH_DEFAULT_VOLUME_def)
  from general plain call vol show ?thesis
    by (auto split: option.splits)
qed

text \<open>
  A recorder whose \<open>SetSampleRate\<close> callback returns 1 and writes its log only: the
  init still succeeds and the context holds the five values.
\<close>

theorem init_success_writes_context_witness:
  "Init (SynthIO (registered 0 1)) = Some (\<lambda>h. (0, h @ [Ev_Init])) \<and>
   plain_call (\<lambda>h. (0, h @ [Ev_Init])) (registered 0 1) =
     (0, (registered 0 1)\<lparr>hw := [Ev_Init]\<rparr>) \<and>
   fst ((\<lambda>h. (0 :: int32_t, h @ [Ev_Init])) (hw (registered 0 1))) = 0 \<and>
   SetSampleRate (SynthIO ((registered 0 1)\<lparr>hw := [Ev_Init]\<rparr>)) =
     Some (\<lambda>r h. (1, h @ [Ev_SetSampleRate r])) \<and>
   SynthCtx (snd (plain_call1 (\<lambda>r h. (1, h @ [Ev_SetSampleRate r])) 48000
     ((registered 0 1)
        \<lparr>hw := [Ev_Init],
         SynthCtx := \<lparr>SampleRate = 48000, Channels = 2, Volume = 75,
                      SYNTH_Ctx_t.Mute = 0, Initialized = 1\<rparr>\<rparr>))) =
     \<lparr>SampleRate = 48000, Channels = 2, Volume = 75, SYNTH_Ctx_t.Mute = 0, Initialized = 1\<rparr> \<and>
   fst (SYNTH_Init_with plain_call plain_call1 NULL 48000 2 (registered 0 1)) =
     SYNTH_STATUS_OK \<and>
   snd (SYNTH_Init_with plain_call plain_call1 NULL 48000 2 (registered 0 1)) =
     (registered 0 1)
       \<lparr>hw := [Ev_Init, Ev_SetSampleRate 48000],
        SynthCtx := \<lparr>SampleRate = 48000, Channels = 2, Volume = 75,
                     SYNTH_Ctx_t.Mute = 0, Initialized = 1\<rparr>\<rparr> \<and>
   fst (SYNTH_Init NULL 48000 2 (registered 0 1)) = SYNTH_STATUS_OK \<and>
   SynthCtx (snd (SYNTH_Init NULL 48000 2 (registered 0 1))) =
     \<lparr>SampleRate = 48000, Channels = 2, Volume = 75, SYNTH_Ctx_t.Mute = 0, Initialized = 1\<rparr> \<and>
   hw (snd (SYNTH_Init NULL 48000 2 (registered 0 1))) = [Ev_Init, Ev_SetSampleRate 48000]"
proof -
  have h1: "Init (SynthIO (registered 0 1)) = Some (\<lambda>h. (0, h @ [Ev_Init]))"
    by (simp add: registered_simps recorder_simps)
  have h2: "plain_call (\<lambda>h. (0, h @ [Ev_Init])) (registered 0 1) =
      (0, (registered 0 1)\<lparr>hw := [Ev_Init]\<rparr>)"
    by (simp add: plain_call_def registered_simps)
  show ?thesis
    using h1 h2 init_success_writes_context [where call_init = plain_call
        and init = "\<lambda>h. (0, h @ [Ev_Init])" and s = "registered 0 1"
        and ?s1.0 = "(registered 0 1)\<lparr>hw := [Ev_Init]\<rparr>"
        and call_set_rate = plain_call1 and pObj = NULL
        and sample_rate = 48000 and channels = 2, OF h1 h2]
    by (simp add: registered_simps recorder_simps plain_call1_def)
qed

subsection \<open>C5: the volume clamp\<close>

text \<open>
  Claim C5. For every \<open>v\<close>, \<^verbatim>\<open>SYNTH_SetVolume(v)\<close> returns \<^verbatim>\<open>SYNTH_STATUS_OK\<close> and a
  following \<^verbatim>\<open>SYNTH_GetVolume\<close> (with a non-null output pointer) returns OK and
  \<open>min v 100\<close>: \<open>v\<close> itself when \<open>v \<le> 100\<close>, exactly 100 when \<open>v > 100\<close>. After any
  sequence of calls of the public functions from the driver as it starts, with any
  backend, the stored volume is at most 100.
\<close>

theorem setVolume_getVolume_clamped:
  "fst (SYNTH_SetVolume pObj v s) = SYNTH_STATUS_OK \<and>
   SYNTH_GetVolume pObj' (Some old) (snd (SYNTH_SetVolume pObj v s)) =
     ((SYNTH_STATUS_OK, Some (min v 100)), snd (SYNTH_SetVolume pObj v s)) \<and>
   (v \<le> 100 \<longrightarrow>
      fst (SYNTH_GetVolume pObj' (Some old) (snd (SYNTH_SetVolume pObj v s))) =
        (SYNTH_STATUS_OK, Some v)) \<and>
   (v > 100 \<longrightarrow>
      fst (SYNTH_GetVolume pObj' (Some old) (snd (SYNTH_SetVolume pObj v s))) =
        (SYNTH_STATUS_OK, Some 100)) \<and>
   unat (Volume (SynthCtx (snd (api_run cs (synth_start h))))) \<le> 100"
proof -
  have "Volume (SynthCtx (synth_start h)) \<le> 100"
    by (simp add: synth_start_def SynthCtx_zero_def)
  then have "Volume (SynthCtx (snd (api_run cs (synth_start h)))) \<le> 100"
    by (rule api_run_Volume)
  then have "unat (Volume (SynthCtx (snd (api_run cs (synth_start h))))) \<le> 100"
    by (simp add: word_le_nat_alt)
  then show ?thesis
    by (auto simp add: SYNTH_SetVolume_def SYNTH_GetVolume_def Let_def min_def not_less)
qed

text \<open>Volumes 100 and 200 on an initialised driver; volume 255 from the start.\<close>

theorem setVolume_getVolume_clamped_witness:
  "(100 :: uint8_t) \<le> 100 \<and> (200 :: uint8_t) > 100 \<and>
   fst (SYNTH_GetVolume NULL (Some 0) (snd (SYNTH_SetVolume NULL 100 (ready 0)))) =
     (SYNTH_STATUS_OK, Some 100) \<and>
   fst (SYNTH_GetVolume NULL (Some 0) (snd (SYNTH_SetVolume NULL 200 (ready 0)))) =
     (SYNTH_STATUS_OK, Some 100) \<and>
   unat (Volume (SynthCtx (snd (api_run [Call_Init NULL 8000 1, Call_SetVolume NULL 255]
     (synth_start ([] :: io_event list)))))) \<le> 100"
  using setVolume_getVolume_clamped [where v = 100 and s = "ready 0" and pObj = NULL
          and pObj' = NULL and old = 0
          and cs = "[Call_Init NULL 8000 1, Call_SetVolume NULL 255]"
          and h = "[] :: io_event list"]
        setVolume_getVolume_clamped [where v = 200 and s = "ready 0" and pObj = NULL
          and pObj' = NULL and old = 0 and cs = "[]" and h = "[] :: io_event list"]
  by simp

subsection \<open>C6: deinit\<close>

text \<open>
  Claim C6. \<^verbatim>\<open>SYNTH_DeInit\<close> returns \<^verbatim>\<open>SYNTH_STATUS_OK\<close> in every state and leaves every
  field of the context zero (so \<open>Initialized = 0\<close>) and the registered table as it
  was. A second call right after it returns OK again, and the context and the table
  after the second call are those after the first. Each call invokes the backend's
  \<open>DeInit\<close> callback when one is registered and drops its result.
\<close>

theorem deinit_zeroes_context_idempotent:
  "fst (SYNTH_DeInit pObj s) = SYNTH_STATUS_OK \<and>
   SynthCtx (snd (SYNTH_DeInit pObj s)) =
     \<lparr>SampleRate = 0, Channels = 0, Volume = 0, SYNTH_Ctx_t.Mute = 0, Initialized = 0\<rparr> \<and>
   SynthIO (snd (SYNTH_DeInit pObj s)) = SynthIO s \<and>
   fst (SYNTH_DeInit pObj' (snd (SYNTH_DeInit pObj s))) = SYNTH_STATUS_OK \<and>
   SynthCtx (snd (SYNTH_DeInit pObj' (snd (SYNTH_DeInit pObj s)))) =
     SynthCtx (snd (SYNTH_DeInit pObj s)) \<and>
   SynthIO (snd (SYNTH_DeInit pObj' (snd (SYNTH_DeInit pObj s)))) =
     SynthIO (snd (SYNTH_DeInit pObj s)) \<and>
   hw (snd (SYNTH_DeInit pObj s)) =
     (case DeInit (SynthIO s) of None \<Rightarrow> hw s | Some deinit \<Rightarrow> snd (deinit (hw s)))"
  by (simp add: SYNTH_DeInit_def SynthCtx_zero_def Let_def split: option.split)

subsection \<open>C7: playback before init\<close>

text \<open>
  \<^verbatim>\<open>SYNTH_Stop\<close>, one of the two playback functions, returns \<^verbatim>\<open>SYNTH_STATUS_OK\<close> on the
  driver as it starts, where \<open>Initialized = 0\<close>: not the error status.
\<close>

theorem stop_before_init_returns_ok:
  "Initialized (SynthCtx (synth_start ([] :: io_event list))) = 0 \<and>
   fst (SYNTH_Stop NULL (synth_start ([] :: io_event list))) = SYNTH_STATUS_OK \<and>
   SYNTH_STATUS_OK \<noteq> SYNTH_STATUS_ERROR"
  by (simp add: SYNTH_Stop_def synth_start_def SynthCtx_zero_def status_defs)

text \<open>
  Claim C7, as amended. \<^verbatim>\<open>SYNTH_PlayBuffer\<close> returns a status in every state; when
  \<open>Initialized\<close> is 0 it is \<^verbatim>\<open>SYNTH_STATUS_ERROR\<close>, and when the driver is initialised
  but no \<open>Transmit\<close> callback is registered it is \<^verbatim>\<open>SYNTH_STATUS_ERROR\<close> too; in both
  cases the state is left as it was. \<^verbatim>\<open>SYNTH_Stop\<close> is not gated: with \<open>Initialized\<close>
  0 it returns \<^verbatim>\<open>SYNTH_STATUS_OK\<close>.
\<close>

theorem playBuffer_not_ready_or_no_transmit:
  "(Initialized (SynthCtx s) = 0 \<longrightarrow>
      SYNTH_PlayBuffer pObj buffer n s = (SYNTH_STATUS_ERROR, s)) \<and>
   (Initialized (SynthCtx s) \<noteq> 0 \<longrightarrow> Transmit (SynthIO s) = None \<longrightarrow>
      SYNTH_PlayBuffer pObj buffer n s = (SYNTH_STATUS_ERROR, s)) \<and>
   SYNTH_STATUS_ERROR \<noteq> SYNTH_STATUS_OK \<and>
   (Initialized (SynthCtx s) = 0 \<longrightarrow> SYNTH_Stop pObj s = (SYNTH_STATUS_OK, s))"
  by (simp add: SYNTH_PlayBuffer_def SYNTH_Stop_def status_defs)

text \<open>An uninitialised recorder, and an initialised backend without \<open>Transmit\<close>.\<close>

theorem playBuffer_not_ready_or_no_transmit_witness:
  "Initialized (SynthCtx (registered 0 0)) = 0 \<and>
   SYNTH_PlayBuffer NULL (Addr 0) 256 (registered 0 0) = (SYNTH_STATUS_ERROR, registered 0 0) \<and>
   SYNTH_Stop NULL (registered 0 0) = (SYNTH_STATUS_OK, registered 0 0) \<and>
   Initialized (SynthCtx no_transmit) \<noteq> 0 \<and> Transmit (SynthIO no_transmit) = None \<and>
   SYNTH_PlayBuffer NULL (Addr 0) 256 no_transmit = (SYNTH_STATUS_ERROR, no_transmit)"
  using playBuffer_not_ready_or_no_transmit [where s = "registered 0 0" and pObj = NULL
          and buffer = "Addr 0" and n = 256]
        playBuffer_not_ready_or_no_transmit [where s = no_transmit and pObj = NULL
          and buffer = "Addr 0" and n = 256]
  by (simp add: registered_simps SynthCtx_zero_simps no_transmit_simps)

subsection \<open>C8: registration\<close>

text \<open>
  Claim C8. \<^verbatim>\<open>SYNTH_RegisterBusIO\<close> returns \<^verbatim>\<open>SYNTH_STATUS_ERROR\<close> exactly when \<open>pIO\<close> is
  null, and then changes nothing; otherwise it returns \<^verbatim>\<open>SYNTH_STATUS_OK\<close> and the
  registered table is the whole table passed. Registering \<open>B1\<close> and then \<open>B2\<close>
  gives the very state that registering \<open>B2\<close> alone gives, so every later sequence
  of calls returns the same results and ends in the same state as if \<open>B1\<close> had
  never been registered.
\<close>

theorem registerBusIO_replaces_backend:
  "(fst (SYNTH_RegisterBusIO pObj pIO s) = SYNTH_STATUS_ERROR) = (pIO = None) \<and>
   (fst (SYNTH_RegisterBusIO pObj pIO s) = SYNTH_STATUS_OK) = (pIO \<noteq> None) \<and>
   SYNTH_RegisterBusIO pObj None s = (SYNTH_STATUS_ERROR, s) \<and>
   SYNTH_RegisterBusIO pObj (Some io) s = (SYNTH_STATUS_OK, s\<lparr>SynthIO := io\<rparr>) \<and>
   SynthIO (snd (SYNTH_RegisterBusIO pObj (Some io) s)) = io \<and>
   snd (SYNTH_RegisterBusIO p2 (Some B2) (snd (SYNTH_RegisterBusIO p1 (Some B1) s))) =
     snd (SYNTH_RegisterBusIO p2 (Some B2) s) \<and>
   api_run cs (snd (SYNTH_RegisterBusIO p2 (Some B2) (snd (SYNTH_RegisterBusIO p1 (Some B1) s)))) =
     api_run cs (snd (SYNTH_RegisterBusIO p2 (Some B2) s))"
  by (simp add: SYNTH_RegisterBusIO_def status_defs split: option.split)

text \<open>
  After a recorder whose callbacks fail and then one whose callbacks succeed, init and
  play both return 0, and the log holds the three calls the second recorder received.
\<close>

theorem registerBusIO_replaces_backend_witness:
  "api_run [Call_Init NULL 48000 2, Call_PlayBuffer NULL (Addr 0) 256] replaced =
     ([Status 0, Status 0],
      (ready 0)\<lparr>hw := [Ev_Init, Ev_SetSampleRate 48000, Ev_Transmit (Addr 0) 512]\<rparr>)"
proof -
  have "api_run [Call_Init NULL 48000 2, Call_PlayBuffer NULL (Addr 0) 256] replaced =
        api_run [Call_Init NULL 48000 2, Call_PlayBuffer NULL (Addr 0) 256] (registered 0 0)"
    unfolding replaced_def registered_def
    using registerBusIO_replaces_backend [where ?p1.0 = NULL and ?p2.0 = NULL
          and ?B1.0 = "recorder 1 7" and ?B2.0 = "recorder 0 0"
          and s = "synth_start []" and pObj = NULL and pIO = None and io = "recorder 0 0"
          and cs = "[Call_Init NULL 48000 2, Call_PlayBuffer NULL (Addr 0) 256]"]
    by blast
  moreover have "SYNTH_Init NULL 48000 2 (registered 0 0) = (0, ready 0)"
    by (simp add: ready_def SYNTH_Init_plain registered_simps recorder_simps status_defs)
  moreover have "SYNTH_PlayBuffer NULL (Addr 0) 256 (ready 0) =
      (0, (ready 0)\<lparr>hw := [Ev_Init, Ev_SetSampleRate 48000, Ev_Transmit (Addr 0) 512]\<rparr>)"
    by (simp add: SYNTH_PlayBuffer_def ready_simps recorder_simps)
  ultimately show ?thesis
    by simp
qed

subsection \<open>C9: stop\<close>

text \<open>
  Claim C9. \<^verbatim>\<open>SYNTH_Stop\<close> returns \<^verbatim>\<open>SYNTH_STATUS_OK\<close> in every state and returns the
  state it was given: the context, the registered table and the backend are unchanged.
\<close>

theorem stop_is_noop:
  "SYNTH_Stop pObj s = (SYNTH_STATUS_OK, s) \<and>
   fst (SYNTH_Stop pObj s) = SYNTH_STATUS_OK \<and>
   SynthCtx (snd (SYNTH_Stop pObj s)) = SynthCtx s \<and>
   SynthIO (snd (SYNTH_Stop pObj s)) = SynthIO s \<and>
   hw (snd (SYNTH_Stop pObj s)) = hw s"
  by (simp add: SYNTH_Stop_def)

subsection \<open>C10: the object pointer\<close>

text \<open>
  Claim C10. Each of the ten public functions gives the same status, the same output
  and the same state for any two values \<open>p\<close> and \<open>q\<close> of its first argument \<open>pObj\<close>
  (null or not), the other arguments and the starting state being equal. The pointer
  is a bare address in these definitions: there is nothing to read through it.
\<close>

theorem pObj_ignored:
  "SYNTH_RegisterBusIO p pIO s = SYNTH_RegisterBusIO q pIO s \<and>
   SYNTH_Init p sample_rate channels s = SYNTH_Init q sample_rate channels s \<and>
   SYNTH_DeInit p s = SYNTH_DeInit q s \<and>
   SYNTH_PlayBuffer p buffer n s = SYNTH_PlayBuffer q buffer n s \<and>
   SYNTH_Stop p s = SYNTH_Stop q s \<and>
   SYNTH_SetSampleRate p sample_rate s = SYNTH_SetSampleRate q sample_rate s \<and>
   SYNTH_GetSampleRate p out32 s = SYNTH_GetSampleRate q out32 s \<and>
   SYNTH_SetVolume p volume s = SYNTH_SetVolume q volume s \<and>
   SYNTH_GetVolume p out8 s = SYNTH_GetVolume q out8 s \<and>
   SYNTH_Mute p enable s = SYNTH_Mute q enable s"
  by (simp add: SYNTH_RegisterBusIO_def SYNTH_Init_plain SYNTH_DeInit_def SYNTH_PlayBuffer_def
      SYNTH_Stop_def SYNTH_SetSampleRate_def SYNTH_GetSampleRate_def SYNTH_SetVolume_def
      SYNTH_GetVolume_def SYNTH_Mute_def)

end
